theory Spec2Isabelle
  imports Main "HOL-Library.Word"
begin

section \<open>The messaging service of src/index.js\<close>

text \<open>
  The program is an Express application with five route handlers over one sqlite3
  database handle. Each handler issues exactly one SQL statement and builds its
  response in the statement's callback. The embedding below follows the file top to
  bottom: the two tables of the schema, the SQL statements as functions on the tables,
  and the handlers as functions from the request and the database to the response and
  the database.
\<close>

subsection \<open>Values\<close>

text \<open>
  A JavaScript value as the handlers meet it in \<open>req.body\<close> and \<open>req.params\<close>. The
  swagger annotations type every property as a string, but no handler checks it: a
  property of the parsed body is any JSON value, and reading a property that the
  object lacks gives \<open>undefined\<close>. A number that is an integer of 32 bits is
  \<open>Int32\<close>. Floating point and the \<open>toString\<close> of JavaScript are not modelled: any
  other number is \<open>Float64\<close>, carrying the text that SQLite renders it as, and an
  object or an array is \<open>Object\<close>, carrying the text that its \<open>toString()\<close> returns
  (\<open>[object Object]\<close> for a plain object, the elements joined by commas for an array).
  A string is its UTF-8 text.
\<close>

datatype jsval =
  Undefined | Null | String string | Boolean bool | Int32 "32 word" | Float64 string
  | Object string

text \<open>Property access \<open>obj.k\<close> (and the destructuring \<open>const { k } = obj\<close>).\<close>

definition property :: "(string \<rightharpoonup> jsval) \<Rightarrow> string \<Rightarrow> jsval" where
  "property obj k = (case obj k of None \<Rightarrow> Undefined | Some v \<Rightarrow> v)"

text \<open>
  A value bound to a \<open>?\<close> placeholder. A REAL is given, as the number it comes from, by
  the text that SQLite renders it as.
\<close>

datatype sqlval = SNull | SInteger int | SReal string | SText string

text \<open>
  The driver binds a string as text, a number as an integer when it is one of 32 bits
  and as a double otherwise, a boolean as the integer 1 or 0, null as NULL, and an
  object as the text of its \<open>toString()\<close>; it leaves the placeholder of an
  \<open>undefined\<close> entry unbound, and SQLite reads an unbound placeholder as NULL.
\<close>

fun BindParameter :: "jsval \<Rightarrow> sqlval" where
  "BindParameter (String s) = SText s"
| "BindParameter (Int32 n) = SInteger (sint n)"
| "BindParameter (Float64 t) = SReal t"
| "BindParameter (Boolean b) = SInteger (if b then 1 else 0)"
| "BindParameter Null = SNull"
| "BindParameter (Object t) = SText t"
| "BindParameter Undefined = SNull"

text \<open>The decimal digits of an integer, as SQLite writes an INTEGER as text.\<close>

definition digit :: "nat \<Rightarrow> char" where
  "digit d = ''0123456789'' ! d"

fun decimal_nat :: "nat \<Rightarrow> string" where
  "decimal_nat n = (if n < 10 then [digit n] else decimal_nat (n div 10) @ [digit (n mod 10)])"

declare decimal_nat.simps [simp del]

definition decimal :: "int \<Rightarrow> string" where
  "decimal i = (if i < 0 then CHR ''-'' # decimal_nat (nat (- i)) else decimal_nat (nat i))"

text \<open>
  All columns that the statements bind to are declared TEXT. A column of TEXT affinity
  stores NULL as NULL (\<open>None\<close>) and converts an INTEGER or a REAL to its text before
  storing it; the same conversion is applied to a value compared with such a column.
\<close>

fun text_affinity :: "sqlval \<Rightarrow> string option" where
  "text_affinity SNull = None"
| "text_affinity (SInteger i) = Some (decimal i)"
| "text_affinity (SReal t) = Some t"
| "text_affinity (SText s) = Some s"

text \<open>The JSON documents that \<open>res.json\<close> sends.\<close>

datatype json = JNum int | JStr string | JArr "json list" | JObj "(string \<times> json) list"

subsection \<open>Schema\<close>

text \<open>
  \<^verbatim>\<open>users(id INTEGER PRIMARY KEY AUTOINCREMENT, userid TEXT UNIQUE NOT NULL,
         username TEXT NOT NULL)\<close>
\<close>

record user_row =
  u_id :: int
  userid :: string
  username :: string

text \<open>
  \<^verbatim>\<open>messages(id INTEGER PRIMARY KEY AUTOINCREMENT, sender TEXT NOT NULL,
            receiver TEXT NOT NULL, message TEXT NOT NULL,
            FOREIGN KEY(sender) REFERENCES users(userid),
            FOREIGN KEY(receiver) REFERENCES users(userid))\<close>
\<close>

record message_row =
  m_id :: int
  sender :: string
  receiver :: string
  message :: string

text \<open>
  The database: both tables in rowid order, the counters that AUTOINCREMENT keeps in
  \<open>sqlite_sequence\<close>, and the connection's \<open>foreign_keys\<close> setting. The program never
  issues \<open>PRAGMA foreign_keys\<close>, so the setting is whatever the store is built with
  (off in a stock SQLite); no statement of the program changes it.
\<close>

record database =
  users :: "user_row list"
  messages :: "message_row list"
  seq_users :: int
  seq_messages :: int
  foreign_keys :: bool

text \<open>The database after both \<open>CREATE TABLE IF NOT EXISTS\<close> on a fresh file.\<close>

definition new_Database :: "bool \<Rightarrow> database" where
  "new_Database fk =
     \<lparr>users = [], messages = [], seq_users = 0, seq_messages = 0, foreign_keys = fk\<rparr>"

text \<open>
  AUTOINCREMENT: the new rowid is one more than the largest rowid the table has ever
  held, which is the larger of the table's largest rowid and the stored counter.
\<close>

definition autoincrement :: "int list \<Rightarrow> int \<Rightarrow> int" where
  "autoincrement ids seq = fold max ids seq + 1"

subsection \<open>Statements\<close>

text \<open>
  A statement fails with a constraint violation, decided by the tables, or with an
  error of the store itself (the file cannot be read or written, the database is
  locked or full), which is an input of the model: \<open>Some msg\<close> when the store
  raises it.
\<close>

datatype store_error = SQLITE_CONSTRAINT string | SQLITE_ERROR string

text \<open>The row objects that \<open>db.all\<close> hands to its callback, one key per selected column.\<close>

definition user_json :: "user_row \<Rightarrow> json" where
  "user_json r = JObj [(''userid'', JStr (userid r)), (''username'', JStr (username r))]"

definition message_json :: "message_row \<Rightarrow> json" where
  "message_json r =
     JObj [(''id'', JNum (m_id r)), (''sender'', JStr (sender r)),
           (''receiver'', JStr (receiver r)), (''message'', JStr (message r))]"

text \<open>\<^verbatim>\<open>SELECT userid,username FROM users\<close>\<close>

definition select_users :: "string option \<Rightarrow> database \<Rightarrow> store_error + json list" where
  "select_users flt db =
     (case flt of
        Some msg \<Rightarrow> Inl (SQLITE_ERROR msg)
      | None \<Rightarrow> Inr (map user_json (users db)))"

text \<open>
  \<^verbatim>\<open>SELECT * FROM messages WHERE receiver = ?\<close>. The parameter is compared as the
  column would store it. A comparison with NULL is never true, so a NULL parameter
  selects no row.
\<close>

definition select_messages_receiver ::
  "string option \<Rightarrow> sqlval \<Rightarrow> database \<Rightarrow> store_error + json list" where
  "select_messages_receiver flt v db =
     (case flt of
        Some msg \<Rightarrow> Inl (SQLITE_ERROR msg)
      | None \<Rightarrow>
          Inr (map message_json
                 (filter (\<lambda>r. Some (receiver r) = text_affinity v) (messages db))))"

text \<open>\<^verbatim>\<open>SELECT * FROM messages\<close>\<close>

definition select_messages :: "string option \<Rightarrow> database \<Rightarrow> store_error + json list" where
  "select_messages flt db =
     (case flt of
        Some msg \<Rightarrow> Inl (SQLITE_ERROR msg)
      | None \<Rightarrow> Inr (map message_json (messages db)))"

text \<open>
  \<^verbatim>\<open>INSERT INTO users (userid, username) VALUES (?, ?)\<close>. The result is the new
  rowid (\<open>this.lastID\<close>) and the database with the row appended; a failed statement
  changes nothing.
\<close>

definition insert_users ::
  "string option \<Rightarrow> sqlval \<Rightarrow> sqlval \<Rightarrow> database \<Rightarrow> store_error + (int \<times> database)" where
  "insert_users flt v_userid v_username db =
     (case flt of
        Some msg \<Rightarrow> Inl (SQLITE_ERROR msg)
      | None \<Rightarrow>
         (case text_affinity v_userid of
            None \<Rightarrow> Inl (SQLITE_CONSTRAINT ''NOT NULL constraint failed: users.userid'')
          | Some uid \<Rightarrow>
             (case text_affinity v_username of
                None \<Rightarrow> Inl (SQLITE_CONSTRAINT ''NOT NULL constraint failed: users.username'')
              | Some un \<Rightarrow>
                 if uid \<in> set (map userid (users db))
                 then Inl (SQLITE_CONSTRAINT ''UNIQUE constraint failed: users.userid'')
                 else
                   let i = autoincrement (map u_id (users db)) (seq_users db)
                   in Inr (i, db\<lparr>users := users db @ [\<lparr>u_id = i, userid = uid, username = un\<rparr>],
                                 seq_users := i\<rparr>))))"

text \<open>
  \<^verbatim>\<open>INSERT INTO messages (sender, receiver, message) VALUES (?, ?, ?)\<close>. The two
  foreign keys are checked only when the connection enforces them.
\<close>

definition insert_messages ::
  "string option \<Rightarrow> sqlval \<Rightarrow> sqlval \<Rightarrow> sqlval \<Rightarrow> database \<Rightarrow> store_error + (int \<times> database)" where
  "insert_messages flt v_sender v_receiver v_message db =
     (case flt of
        Some msg \<Rightarrow> Inl (SQLITE_ERROR msg)
      | None \<Rightarrow>
         (case text_affinity v_sender of
            None \<Rightarrow> Inl (SQLITE_CONSTRAINT ''NOT NULL constraint failed: messages.sender'')
          | Some s \<Rightarrow>
             (case text_affinity v_receiver of
                None \<Rightarrow> Inl (SQLITE_CONSTRAINT ''NOT NULL constraint failed: messages.receiver'')
              | Some r \<Rightarrow>
                 (case text_affinity v_message of
                    None \<Rightarrow> Inl (SQLITE_CONSTRAINT ''NOT NULL constraint failed: messages.message'')
                  | Some m \<Rightarrow>
                     if foreign_keys db
                        \<and> \<not> (s \<in> set (map userid (users db)) \<and> r \<in> set (map userid (users db)))
                     then Inl (SQLITE_CONSTRAINT ''FOREIGN KEY constraint failed'')
                     else
                       let i = autoincrement (map m_id (messages db)) (seq_messages db)
                       in Inr (i, db\<lparr>messages := messages db
                                       @ [\<lparr>m_id = i, sender = s, receiver = r, message = m\<rparr>],
                                     seq_messages := i\<rparr>)))))"

subsection \<open>Requests and responses\<close>

text \<open>
  What a handler can read of \<open>req\<close>: the headers, the route parameters and the parsed
  JSON body (an object, as \<open>express.json()\<close> leaves it).
\<close>

record request =
  headers :: "string \<rightharpoonup> string"
  params :: "string \<rightharpoonup> jsval"
  body :: "string \<rightharpoonup> jsval"

text \<open>What a handler sends: the status (200 unless \<open>res.status\<close> sets it) and the JSON.\<close>

record response =
  res_status :: nat
  res_json :: json

text \<open>
  What a handler's run depends on besides the request and the tables: the error of the
  store, if it raises one, and the value that \<open>uuidv4()\<close> returns.
\<close>

record env =
  fault :: "string option"
  uuid :: string

text \<open>\<^verbatim>\<open>res.status(500).json({ error: 'Internal server error' })\<close>\<close>

definition internal_server_error :: response where
  "internal_server_error =
     \<lparr>res_status = 500, res_json = JObj [(''error'', JStr ''Internal server error'')]\<rparr>"

subsection \<open>Handlers\<close>

text \<open>\<^verbatim>\<open>app.get('/users', ...)\<close>\<close>

definition get_users :: "env \<Rightarrow> request \<Rightarrow> database \<Rightarrow> response \<times> database" where
  "get_users e req db =
     (case select_users (fault e) db of
        Inl err \<Rightarrow> (internal_server_error, db)
      | Inr rows \<Rightarrow> (\<lparr>res_status = 200, res_json = JArr rows\<rparr>, db))"

text \<open>\<^verbatim>\<open>app.post('/messages', ...)\<close>\<close>

definition post_messages :: "env \<Rightarrow> request \<Rightarrow> database \<Rightarrow> response \<times> database" where
  "post_messages e req db =
     (let v_sender = property (body req) ''sender'';
          v_receiver = property (body req) ''receiver'';
          v_message = property (body req) ''message''
      in case insert_messages (fault e) (BindParameter v_sender) (BindParameter v_receiver)
                (BindParameter v_message) db of
           Inl err \<Rightarrow> (internal_server_error, db)
         | Inr (lastID, db') \<Rightarrow>
             (\<lparr>res_status = 200,
               res_json = JObj [(''message'', JStr ''Message sent successfully''),
                                (''id'', JNum lastID)]\<rparr>, db'))"

text \<open>\<^verbatim>\<open>app.get('/messages/:userid', ...)\<close>\<close>

definition get_messages_userid :: "env \<Rightarrow> request \<Rightarrow> database \<Rightarrow> response \<times> database" where
  "get_messages_userid e req db =
     (let v_userid = property (params req) ''userid''
      in case select_messages_receiver (fault e) (BindParameter v_userid) db of
           Inl err \<Rightarrow> (internal_server_error, db)
         | Inr rows \<Rightarrow> (\<lparr>res_status = 200, res_json = JArr rows\<rparr>, db))"

text \<open>
  The route \<open>/messages/:userid\<close>. Express calls the handler with \<open>req.params.userid\<close>
  set to the decoded segment that follows \<open>/messages/\<close>, and only when that segment is
  not empty: \<open>GET /messages/\<close> matches no route of the program (\<open>None\<close>), and Express
  answers 404 itself.
\<close>

definition route_messages_userid ::
  "env \<Rightarrow> string \<Rightarrow> request \<Rightarrow> database \<Rightarrow> (response \<times> database) option" where
  "route_messages_userid e segment req db =
     (if segment = [] then None
      else Some (get_messages_userid e (req\<lparr>params := [''userid'' \<mapsto> String segment]\<rparr>) db))"

text \<open>\<^verbatim>\<open>app.get('/super/messages', ...)\<close>: the handler reads nothing of the request.\<close>

definition get_super_messages :: "env \<Rightarrow> request \<Rightarrow> database \<Rightarrow> response \<times> database" where
  "get_super_messages e req db =
     (case select_messages (fault e) db of
        Inl err \<Rightarrow> (internal_server_error, db)
      | Inr rows \<Rightarrow> (\<lparr>res_status = 200, res_json = JArr rows\<rparr>, db))"

text \<open>\<^verbatim>\<open>function generateRandomUserid() { return uuidv4(); }\<close>\<close>

definition generateRandomUserid :: "env \<Rightarrow> string" where
  "generateRandomUserid e = uuid e"

text \<open>\<^verbatim>\<open>app.post('/users', ...)\<close>\<close>

definition post_users :: "env \<Rightarrow> request \<Rightarrow> database \<Rightarrow> response \<times> database" where
  "post_users e req db =
     (let v_username = property (body req) ''username'';
          v_userid = generateRandomUserid e
      in case insert_users (fault e) (BindParameter (String v_userid))
                (BindParameter v_username) db of
           Inl err \<Rightarrow> (internal_server_error, db)
         | Inr (lastID, db') \<Rightarrow>
             (\<lparr>res_status = 200, res_json = JObj [(''userid'', JStr v_userid)]\<rparr>, db'))"

subsection \<open>Sequences of requests\<close>

datatype route = GET_users | POST_messages | GET_messages_userid | GET_super_messages | POST_users

fun handle :: "route \<Rightarrow> env \<Rightarrow> request \<Rightarrow> database \<Rightarrow> response \<times> database" where
  "handle GET_users = get_users"
| "handle POST_messages = post_messages"
| "handle GET_messages_userid = get_messages_userid"
| "handle GET_super_messages = get_super_messages"
| "handle POST_users = post_users"

text \<open>
  The requests are served one after the other, each statement running to its end
  before the next; the result is the list of responses and the final database.
\<close>

fun run :: "(route \<times> env \<times> request) list \<Rightarrow> database \<Rightarrow> response list \<times> database" where
  "run [] db = ([], db)"
| "run ((rt, e, req) # calls) db =
     (case handle rt e req db of
        (res, db') \<Rightarrow> (case run calls db' of (ress, db'') \<Rightarrow> (res # ress, db'')))"

text \<open>
  The userids that the successful user creations of a sequence returned, read off the
  responses.
\<close>

fun created_userids :: "(route \<times> env \<times> request) list \<Rightarrow> response list \<Rightarrow> string list" where
  "created_userids ((rt, e, req) # calls) (res # ress) =
     (if rt = POST_users \<and> res_status res = 200
      then (case res_json res of JObj [(k, JStr x)] \<Rightarrow> [x] | _ \<Rightarrow> [])
      else []) @ created_userids calls ress"
| "created_userids _ _ = []"

text \<open>
  The message rows that the successful sends of a sequence inserted, read off the
  request bodies (each field as the text the column stores for it) and the ids in the
  responses.
\<close>

fun sent_messages :: "(route \<times> env \<times> request) list \<Rightarrow> response list \<Rightarrow> message_row list" where
  "sent_messages ((rt, e, req) # calls) (res # ress) =
     (if rt = POST_messages \<and> res_status res = 200
      then (case (res_json res,
                  text_affinity (BindParameter (property (body req) ''sender'')),
                  text_affinity (BindParameter (property (body req) ''receiver'')),
                  text_affinity (BindParameter (property (body req) ''message''))) of
              (JObj [_, (k, JNum i)], Some s, Some r, Some m) \<Rightarrow>
                 [\<lparr>m_id = i, sender = s, receiver = r, message = m\<rparr>]
            | _ \<Rightarrow> [])
      else []) @ sent_messages calls ress"
| "sent_messages _ _ = []"

subsection \<open>What one request does\<close>

text \<open>
  A user creation either answers with the error and leaves the database as it was, or
  was given a username string, met no error of the store and a userid that no row has,
  and appended one row. The same reading of a send.
\<close>

lemma post_users_cases:
  "post_users e req db = (res, db') \<Longrightarrow>
     (res = internal_server_error \<and> db' = db)
   \<or> (\<exists>un. text_affinity (BindParameter (property (body req) ''username'')) = Some un
          \<and> fault e = None
          \<and> uuid e \<notin> set (map userid (users db))
          \<and> res = \<lparr>res_status = 200, res_json = JObj [(''userid'', JStr (uuid e))]\<rparr>
          \<and> db' = db\<lparr>users := users db @ [\<lparr>u_id = autoincrement (map u_id (users db)) (seq_users db),
                                              userid = uuid e, username = un\<rparr>],
                      seq_users := autoincrement (map u_id (users db)) (seq_users db)\<rparr>)"
  by (auto simp: post_users_def insert_users_def generateRandomUserid_def Let_def
        split: option.splits if_splits)

lemma post_messages_cases:
  "post_messages e req db = (res, db') \<Longrightarrow>
     (res = internal_server_error \<and> db' = db)
   \<or> (\<exists>s r m. text_affinity (BindParameter (property (body req) ''sender'')) = Some s
          \<and> text_affinity (BindParameter (property (body req) ''receiver'')) = Some r
          \<and> text_affinity (BindParameter (property (body req) ''message'')) = Some m
          \<and> fault e = None
          \<and> (foreign_keys db \<longrightarrow> s \<in> set (map userid (users db)) \<and> r \<in> set (map userid (users db)))
          \<and> res = \<lparr>res_status = 200,
                    res_json = JObj [(''message'', JStr ''Message sent successfully''),
                                     (''id'', JNum (autoincrement (map m_id (messages db)) (seq_messages db)))]\<rparr>
          \<and> db' = db\<lparr>messages := messages db @ [\<lparr>m_id = autoincrement (map m_id (messages db)) (seq_messages db),
                                              sender = s, receiver = r, message = m\<rparr>],
                      seq_messages := autoincrement (map m_id (messages db)) (seq_messages db)\<rparr>)"
  by (auto simp: post_messages_def insert_messages_def Let_def
        split: option.splits if_splits)

lemma get_users_db: "get_users e req db = (res, db') \<Longrightarrow> db' = db"
  by (auto simp: get_users_def split: sum.splits)

lemma get_messages_userid_db: "get_messages_userid e req db = (res, db') \<Longrightarrow> db' = db"
  by (auto simp: get_messages_userid_def Let_def split: sum.splits)

lemma get_super_messages_db: "get_super_messages e req db = (res, db') \<Longrightarrow> db' = db"
  by (auto simp: get_super_messages_def split: sum.splits)

lemma ise_status: "res_status internal_server_error = 500"
  by (simp add: internal_server_error_def)

text \<open>Every request leaves the database as it was or appended one row to one table.\<close>

lemma handle_cases:
  assumes h: "handle rt e req db = (res, db')"
  shows "db' = db
   \<or> (rt = POST_users \<and> (\<exists>un. fault e = None
          \<and> uuid e \<notin> set (map userid (users db))
          \<and> res = \<lparr>res_status = 200, res_json = JObj [(''userid'', JStr (uuid e))]\<rparr>
          \<and> db' = db\<lparr>users := users db @ [\<lparr>u_id = autoincrement (map u_id (users db)) (seq_users db),
                                              userid = uuid e, username = un\<rparr>],
                      seq_users := autoincrement (map u_id (users db)) (seq_users db)\<rparr>))
   \<or> (rt = POST_messages \<and> (\<exists>s r m. fault e = None
          \<and> res = \<lparr>res_status = 200,
                    res_json = JObj [(''message'', JStr ''Message sent successfully''),
                                     (''id'', JNum (autoincrement (map m_id (messages db)) (seq_messages db)))]\<rparr>
          \<and> db' = db\<lparr>messages := messages db @ [\<lparr>m_id = autoincrement (map m_id (messages db)) (seq_messages db),
                                              sender = s, receiver = r, message = m\<rparr>],
                      seq_messages := autoincrement (map m_id (messages db)) (seq_messages db)\<rparr>))"
proof (cases rt)
  case GET_users
  with h show ?thesis using get_users_db [of e req db res db'] by simp
next
  case POST_messages
  with h show ?thesis using post_messages_cases [of e req db res db'] by auto
next
  case GET_messages_userid
  with h show ?thesis using get_messages_userid_db [of e req db res db'] by simp
next
  case GET_super_messages
  with h show ?thesis using get_super_messages_db [of e req db res db'] by simp
next
  case POST_users
  with h show ?thesis using post_users_cases [of e req db res db'] by auto
qed

lemma handle_users_grow:
  "handle rt e req db = (res, db') \<Longrightarrow> \<exists>ys. users db' = users db @ ys"
  by (drule handle_cases) auto

lemma handle_messages_grow:
  "handle rt e req db = (res, db') \<Longrightarrow> \<exists>ys. messages db' = messages db @ ys"
  by (drule handle_cases) auto

lemma run_users_grow:
  "run calls db = (ress, db') \<Longrightarrow> \<exists>ys. users db' = users db @ ys"
proof (induction calls arbitrary: db ress db')
  case Nil
  then show ?case by simp
next
  case (Cons c calls)
  obtain rt e req where c: "c = (rt, e, req)" by (cases c) auto
  obtain res db1 where h: "handle rt e req db = (res, db1)" by (cases "handle rt e req db") auto
  obtain ress1 db2 where r: "run calls db1 = (ress1, db2)" by (cases "run calls db1") auto
  from Cons.prems c h r have "db' = db2" by simp
  moreover from handle_users_grow [OF h] obtain ys where "users db1 = users db @ ys" by blast
  moreover from Cons.IH [OF r] obtain zs where "users db2 = users db1 @ zs" by blast
  ultimately show ?case by simp
qed

lemma run_messages_grow:
  "run calls db = (ress, db') \<Longrightarrow> \<exists>ys. messages db' = messages db @ ys"
proof (induction calls arbitrary: db ress db')
  case Nil
  then show ?case by simp
next
  case (Cons c calls)
  obtain rt e req where c: "c = (rt, e, req)" by (cases c) auto
  obtain res db1 where h: "handle rt e req db = (res, db1)" by (cases "handle rt e req db") auto
  obtain ress1 db2 where r: "run calls db1 = (ress1, db2)" by (cases "run calls db1") auto
  from Cons.prems c h r have "db' = db2" by simp
  moreover from handle_messages_grow [OF h] obtain ys where "messages db1 = messages db @ ys" by blast
  moreover from Cons.IH [OF r] obtain zs where "messages db2 = messages db1 @ zs" by blast
  ultimately show ?case by simp
qed

subsection \<open>What a sequence of requests does\<close>

text \<open>
  The tables only grow, and they grow by what the responses report: the userids of
  the users table are those it had, followed by the userids returned; the messages
  are those it had, followed by the messages sent.
\<close>

lemma handle_created:
  assumes h: "handle rt e req db = (res, db1)"
  shows "map userid (users db1) = map userid (users db) @ created_userids [(rt, e, req)] [res]"
proof (cases rt)
  case GET_users
  with h show ?thesis using get_users_db [of e req db res db1] by simp
next
  case POST_messages
  with h show ?thesis using post_messages_cases [of e req db res db1] by auto
next
  case GET_messages_userid
  with h show ?thesis using get_messages_userid_db [of e req db res db1] by simp
next
  case GET_super_messages
  with h show ?thesis using get_super_messages_db [of e req db res db1] by simp
next
  case POST_users
  with h show ?thesis using post_users_cases [of e req db res db1]
    by (auto simp: ise_status)
qed

lemma handle_sent:
  assumes h: "handle rt e req db = (res, db1)"
  shows "messages db1 = messages db @ sent_messages [(rt, e, req)] [res]"
proof (cases rt)
  case GET_users
  with h show ?thesis using get_users_db [of e req db res db1] by simp
next
  case POST_messages
  with h show ?thesis using post_messages_cases [of e req db res db1]
    by (auto simp: ise_status)
next
  case GET_messages_userid
  with h show ?thesis using get_messages_userid_db [of e req db res db1] by simp
next
  case GET_super_messages
  with h show ?thesis using get_super_messages_db [of e req db res db1] by simp
next
  case POST_users
  with h show ?thesis using post_users_cases [of e req db res db1] by auto
qed

lemma run_created:
  "run calls db = (ress, db') \<Longrightarrow>
     map userid (users db') = map userid (users db) @ created_userids calls ress"
proof (induction calls arbitrary: db ress db')
  case Nil
  then show ?case by simp
next
  case (Cons c calls)
  obtain rt e req where c: "c = (rt, e, req)" by (cases c) auto
  obtain res db1 where h: "handle rt e req db = (res, db1)" by (cases "handle rt e req db") auto
  obtain ress1 db2 where r: "run calls db1 = (ress1, db2)" by (cases "run calls db1") auto
  from Cons.prems c h r have eq: "db' = db2" "ress = res # ress1" by simp_all
  from handle_created [OF h] Cons.IH [OF r] show ?case
    unfolding eq c by simp
qed

lemma run_sent:
  "run calls db = (ress, db') \<Longrightarrow> messages db' = messages db @ sent_messages calls ress"
proof (induction calls arbitrary: db ress db')
  case Nil
  then show ?case by simp
next
  case (Cons c calls)
  obtain rt e req where c: "c = (rt, e, req)" by (cases c) auto
  obtain res db1 where h: "handle rt e req db = (res, db1)" by (cases "handle rt e req db") auto
  obtain ress1 db2 where r: "run calls db1 = (ress1, db2)" by (cases "run calls db1") auto
  from Cons.prems c h r have eq: "db' = db2" "ress = res # ress1" by simp_all
  from handle_sent [OF h] Cons.IH [OF r] show ?case
    unfolding eq c by simp
qed

lemma handle_distinct:
  assumes h: "handle rt e req db = (res, db1)" and d: "distinct (map userid (users db))"
  shows "distinct (map userid (users db1))"
  using handle_cases [OF h] d by auto

lemma run_distinct:
  "run calls db = (ress, db') \<Longrightarrow> distinct (map userid (users db)) \<Longrightarrow>
     distinct (map userid (users db'))"
proof (induction calls arbitrary: db ress db')
  case Nil
  then show ?case by simp
next
  case (Cons c calls)
  obtain rt e req where c: "c = (rt, e, req)" by (cases c) auto
  obtain res db1 where h: "handle rt e req db = (res, db1)" by (cases "handle rt e req db") auto
  obtain ress1 db2 where r: "run calls db1 = (ress1, db2)" by (cases "run calls db1") auto
  from Cons.prems c h r have eq: "db' = db2" by simp
  from Cons.IH [OF r handle_distinct [OF h Cons.prems(2)]] show ?case
    unfolding eq .
qed

lemma fold_max_ge: "(seq::int) \<le> fold max ids seq \<and> (\<forall>i \<in> set ids. i \<le> fold max ids seq)"
proof (induction ids arbitrary: seq)
  case Nil
  then show ?case by simp
next
  case (Cons a ids)
  from Cons.IH [of "max a seq"] show ?case by auto
qed

lemma autoincrement_fresh: "\<forall>i \<in> set ids. i < autoincrement ids seq"
  using fold_max_ge [of seq ids] by (auto simp: autoincrement_def)

lemmas service_defs =
  get_users_def post_messages_def get_messages_userid_def get_super_messages_def post_users_def
  select_users_def select_messages_receiver_def select_messages_def insert_users_def
  insert_messages_def generateRandomUserid_def property_def new_Database_def autoincrement_def
  internal_server_error_def user_json_def message_json_def Let_def

section \<open>The claims\<close>

text \<open>
  C1. Create-then-list round trip, as the claim states it, for every body
  \<open>{username: u}\<close>: the array of the listing that follows contains
  \<open>{userid: x, username: u}\<close>. With the number 123 as username the creation answers
  200, the column stores the text \<open>123\<close>, and the listing holds the string, not the
  number.
\<close>

theorem create_then_list_users_counterexample:
  "post_users \<lparr>fault = None, uuid = ''id-1''\<rparr>
     \<lparr>headers = Map.empty, params = Map.empty, body = [''username'' \<mapsto> Int32 123]\<rparr>
     (new_Database False)
   = (\<lparr>res_status = 200, res_json = JObj [(''userid'', JStr ''id-1'')]\<rparr>,
      \<lparr>users = [\<lparr>u_id = 1, userid = ''id-1'', username = ''123''\<rparr>], messages = [],
       seq_users = 1, seq_messages = 0, foreign_keys = False\<rparr>)
   \<and> get_users \<lparr>fault = None, uuid = ''''\<rparr>
     \<lparr>headers = Map.empty, params = Map.empty, body = Map.empty\<rparr>
     \<lparr>users = [\<lparr>u_id = 1, userid = ''id-1'', username = ''123''\<rparr>], messages = [],
      seq_users = 1, seq_messages = 0, foreign_keys = False\<rparr>
   = (\<lparr>res_status = 200,
       res_json = JArr [JObj [(''userid'', JStr ''id-1''), (''username'', JStr ''123'')]]\<rparr>,
      \<lparr>users = [\<lparr>u_id = 1, userid = ''id-1'', username = ''123''\<rparr>], messages = [],
       seq_users = 1, seq_messages = 0, foreign_keys = False\<rparr>)
   \<and> JObj [(''userid'', JStr ''id-1''), (''username'', JNum 123)]
       \<notin> set [JObj [(''userid'', JStr ''id-1''), (''username'', JStr ''123'')]]"
  by (simp add: service_defs decimal_def decimal_nat.simps digit_def)

text \<open>
  C1, amended. When \<open>POST /users\<close> with a body \<open>{username: u}\<close> whose \<open>u\<close> is a string
  answers 200 with \<open>{userid: x}\<close>, then after any further requests a \<open>GET /users\<close> that
  the store serves without error answers 200 with an array that contains
  \<open>{userid: x, username: u}\<close>, and every element of the array is an object of exactly
  the two fields \<open>userid\<close> and \<open>username\<close>: the rowid is not among them.
\<close>

theorem create_then_list_users:
  assumes created: "post_users e req db =
                      (\<lparr>res_status = 200, res_json = JObj [(''userid'', JStr x)]\<rparr>, db1)"
    and name: "body req ''username'' = Some (String u)"
    and later: "run calls db1 = (ress, db2)"
    and ok: "fault e' = None"
  shows "\<exists>rows. get_users e' req' db2 = (\<lparr>res_status = 200, res_json = JArr rows\<rparr>, db2)
           \<and> JObj [(''userid'', JStr x), (''username'', JStr u)] \<in> set rows
           \<and> (\<forall>row \<in> set rows. \<exists>a b. row = JObj [(''userid'', JStr a), (''username'', JStr b)])"
proof -
  from name have p: "text_affinity (BindParameter (property (body req) ''username'')) = Some u"
    by (simp add: property_def)
  from post_users_cases [OF created] p
  obtain i where "users db1 = users db @ [\<lparr>u_id = i, userid = x, username = u\<rparr>]"
    by (auto simp: internal_server_error_def)
  moreover from run_users_grow [OF later] obtain ys where "users db2 = users db1 @ ys"
    by blast
  ultimately have mem: "\<lparr>u_id = i, userid = x, username = u\<rparr> \<in> set (users db2)"
    by simp
  have get: "get_users e' req' db2
               = (\<lparr>res_status = 200, res_json = JArr (map user_json (users db2))\<rparr>, db2)"
    using ok by (simp add: get_users_def select_users_def)
  have "JObj [(''userid'', JStr x), (''username'', JStr u)] \<in> set (map user_json (users db2))"
    using mem by (force simp: user_json_def)
  moreover have "\<forall>row \<in> set (map user_json (users db2)).
                   \<exists>a b. row = JObj [(''userid'', JStr a), (''username'', JStr b)]"
    by (auto simp: user_json_def)
  ultimately show ?thesis using get by blast
qed

text \<open>
  On a fresh database: alice is created with a generated userid, then bob, and the
  listing that follows holds her row.
\<close>

theorem create_then_list_users_witness:
  "post_users \<lparr>fault = None, uuid = ''3b241101-e2bb-4255-8caf-4136c566a962''\<rparr>
     \<lparr>headers = Map.empty, params = Map.empty, body = [''username'' \<mapsto> String ''alice'']\<rparr>
     (new_Database False)
   = (\<lparr>res_status = 200,
       res_json = JObj [(''userid'', JStr ''3b241101-e2bb-4255-8caf-4136c566a962'')]\<rparr>,
      \<lparr>users = [\<lparr>u_id = 1, userid = ''3b241101-e2bb-4255-8caf-4136c566a962'',
                 username = ''alice''\<rparr>],
       messages = [], seq_users = 1, seq_messages = 0, foreign_keys = False\<rparr>)
   \<and> (\<exists>rows. fst (get_users \<lparr>fault = None, uuid = ''''\<rparr>
          \<lparr>headers = Map.empty, params = Map.empty, body = Map.empty\<rparr>
          (snd (run [(POST_users, \<lparr>fault = None, uuid = ''id-2''\<rparr>,
                      \<lparr>headers = Map.empty, params = Map.empty,
                       body = [''username'' \<mapsto> String ''bob'']\<rparr>)]
                  \<lparr>users = [\<lparr>u_id = 1, userid = ''3b241101-e2bb-4255-8caf-4136c566a962'',
                             username = ''alice''\<rparr>],
                   messages = [], seq_users = 1, seq_messages = 0, foreign_keys = False\<rparr>)))
        = \<lparr>res_status = 200, res_json = JArr rows\<rparr>
      \<and> JObj [(''userid'', JStr ''3b241101-e2bb-4255-8caf-4136c566a962''),
               (''username'', JStr ''alice'')] \<in> set rows)"
proof -
  let ?e = "\<lparr>fault = None, uuid = ''3b241101-e2bb-4255-8caf-4136c566a962''\<rparr>"
  let ?req = "\<lparr>headers = Map.empty, params = Map.empty,
               body = [''username'' \<mapsto> String ''alice'']\<rparr>"
  let ?db1 = "\<lparr>users = [\<lparr>u_id = 1, userid = ''3b241101-e2bb-4255-8caf-4136c566a962'',
                         username = ''alice''\<rparr>],
               messages = [], seq_users = 1, seq_messages = 0, foreign_keys = False\<rparr>"
  let ?calls = "[(POST_users, \<lparr>fault = None, uuid = ''id-2''\<rparr>,
                  \<lparr>headers = Map.empty, params = Map.empty,
                   body = [''username'' \<mapsto> String ''bob'']\<rparr>)]"
  let ?e' = "\<lparr>fault = None, uuid = ''''\<rparr>"
  let ?req' = "\<lparr>headers = Map.empty, params = Map.empty, body = Map.empty\<rparr>"
  have created: "post_users ?e ?req (new_Database False)
                   = (\<lparr>res_status = 200,
                       res_json = JObj [(''userid'', JStr ''3b241101-e2bb-4255-8caf-4136c566a962'')]\<rparr>,
                      ?db1)"
    by (simp add: service_defs)
  have name: "body ?req ''username'' = Some (String ''alice'')" by simp
  have later: "run ?calls ?db1 = (fst (run ?calls ?db1), snd (run ?calls ?db1))" by simp
  have ok: "fault ?e' = None" by simp
  from create_then_list_users [OF created name later ok, of ?req']
  obtain rows where "get_users ?e' ?req' (snd (run ?calls ?db1))
                       = (\<lparr>res_status = 200, res_json = JArr rows\<rparr>, snd (run ?calls ?db1))"
    and "JObj [(''userid'', JStr ''3b241101-e2bb-4255-8caf-4136c566a962''),
               (''username'', JStr ''alice'')] \<in> set rows"
    by blast
  then have "fst (get_users ?e' ?req' (snd (run ?calls ?db1)))
               = \<lparr>res_status = 200, res_json = JArr rows\<rparr>
      \<and> JObj [(''userid'', JStr ''3b241101-e2bb-4255-8caf-4136c566a962''),
               (''username'', JStr ''alice'')] \<in> set rows"
    by simp
  with created show ?thesis by blast
qed

text \<open>
  C2. Send-then-list round trip, as the claim states it, for every body
  \<open>{sender: A, receiver: B, message: m}\<close> of a successful send: \<open>GET /messages/B\<close> answers
  200 with a row of exactly \<open>A\<close>, \<open>B\<close> and \<open>m\<close>. A send to the empty string as receiver
  answers 200, and \<open>GET /messages/\<close> matches no route. A send with the number 7 as
  sender answers 200, and the row listed for its receiver has the string \<open>7\<close> as
  sender.
\<close>

theorem send_then_list_messages_counterexample:
  "post_messages \<lparr>fault = None, uuid = ''''\<rparr>
     \<lparr>headers = Map.empty, params = Map.empty,
      body = [''sender'' \<mapsto> String ''alice-id'', ''receiver'' \<mapsto> String '''',
              ''message'' \<mapsto> String ''hello'']\<rparr>
     (new_Database False)
   = (\<lparr>res_status = 200,
       res_json = JObj [(''message'', JStr ''Message sent successfully''), (''id'', JNum 1)]\<rparr>,
      \<lparr>users = [],
       messages = [\<lparr>m_id = 1, sender = ''alice-id'', receiver = '''', message = ''hello''\<rparr>],
       seq_users = 0, seq_messages = 1, foreign_keys = False\<rparr>)
   \<and> route_messages_userid \<lparr>fault = None, uuid = ''''\<rparr> ''''
       \<lparr>headers = Map.empty, params = Map.empty, body = Map.empty\<rparr>
       \<lparr>users = [],
        messages = [\<lparr>m_id = 1, sender = ''alice-id'', receiver = '''', message = ''hello''\<rparr>],
        seq_users = 0, seq_messages = 1, foreign_keys = False\<rparr>
     = None
   \<and> post_messages \<lparr>fault = None, uuid = ''''\<rparr>
     \<lparr>headers = Map.empty, params = Map.empty,
      body = [''sender'' \<mapsto> Int32 7, ''receiver'' \<mapsto> String ''bob-id'',
              ''message'' \<mapsto> String ''hello'']\<rparr>
     (new_Database False)
   = (\<lparr>res_status = 200,
       res_json = JObj [(''message'', JStr ''Message sent successfully''), (''id'', JNum 1)]\<rparr>,
      \<lparr>users = [],
       messages = [\<lparr>m_id = 1, sender = ''7'', receiver = ''bob-id'', message = ''hello''\<rparr>],
       seq_users = 0, seq_messages = 1, foreign_keys = False\<rparr>)
   \<and> route_messages_userid \<lparr>fault = None, uuid = ''''\<rparr> ''bob-id''
       \<lparr>headers = Map.empty, params = Map.empty, body = Map.empty\<rparr>
       \<lparr>users = [],
        messages = [\<lparr>m_id = 1, sender = ''7'', receiver = ''bob-id'', message = ''hello''\<rparr>],
        seq_users = 0, seq_messages = 1, foreign_keys = False\<rparr>
     = Some (\<lparr>res_status = 200,
              res_json = JArr [JObj [(''id'', JNum 1), (''sender'', JStr ''7''),
                                     (''receiver'', JStr ''bob-id''),
                                     (''message'', JStr ''hello'')]]\<rparr>,
             \<lparr>users = [],
              messages = [\<lparr>m_id = 1, sender = ''7'', receiver = ''bob-id'', message = ''hello''\<rparr>],
              seq_users = 0, seq_messages = 1, foreign_keys = False\<rparr>)"
  by (simp add: service_defs route_messages_userid_def decimal_def decimal_nat.simps digit_def)

text \<open>
  C2, amended. When \<open>POST /messages\<close> with a body \<open>{sender: a, receiver: b, message: m}\<close>
  of three strings, \<open>b\<close> not empty, succeeds, then after any further requests a
  \<open>GET /messages/b\<close> that the store serves without error answers 200 with an array
  holding a row of sender \<open>a\<close>, receiver \<open>b\<close> and message \<open>m\<close>. And for every \<open>p\<close> that
  is not empty, \<open>GET /messages/p\<close> answers with exactly the stored rows whose receiver
  is \<open>p\<close>, in the order of the table.
\<close>

theorem send_then_list_messages:
  "(post_messages e req db = (res, db1) \<and> res_status res = 200
      \<and> body req ''sender'' = Some (String a) \<and> body req ''receiver'' = Some (String b)
      \<and> body req ''message'' = Some (String m) \<and> b \<noteq> []
      \<and> run calls db1 = (ress, db2)
      \<and> fault e' = None
    \<longrightarrow> (\<exists>rows i. route_messages_userid e' b req' db2
                      = Some (\<lparr>res_status = 200, res_json = JArr rows\<rparr>, db2)
            \<and> JObj [(''id'', JNum i), (''sender'', JStr a), (''receiver'', JStr b),
                     (''message'', JStr m)] \<in> set rows))
   \<and> (fault e'' = None \<and> p \<noteq> []
    \<longrightarrow> route_messages_userid e'' p req'' db3
          = Some (\<lparr>res_status = 200,
                   res_json = JArr (map message_json
                                      (filter (\<lambda>row. receiver row = p) (messages db3)))\<rparr>,
                  db3))"
proof -
  have listing: "route_messages_userid f k q d
          = Some (\<lparr>res_status = 200,
                   res_json = JArr (map message_json
                                      (filter (\<lambda>row. receiver row = k) (messages d)))\<rparr>, d)"
    if "fault f = None" and "k \<noteq> []" for f q d k
    using that
    by (simp add: route_messages_userid_def get_messages_userid_def
          select_messages_receiver_def property_def)
  have round_trip: "\<exists>rows i. route_messages_userid e' b req' db2
                      = Some (\<lparr>res_status = 200, res_json = JArr rows\<rparr>, db2)
            \<and> JObj [(''id'', JNum i), (''sender'', JStr a), (''receiver'', JStr b),
                     (''message'', JStr m)] \<in> set rows"
    if sent: "post_messages e req db = (res, db1)" and success: "res_status res = 200"
      and fields: "body req ''sender'' = Some (String a)" "body req ''receiver'' = Some (String b)"
        "body req ''message'' = Some (String m)"
      and nonempty: "b \<noteq> []"
      and later: "run calls db1 = (ress, db2)"
      and ok: "fault e' = None"
  proof -
    from fields have p: "text_affinity (BindParameter (property (body req) ''sender'')) = Some a"
        "text_affinity (BindParameter (property (body req) ''receiver'')) = Some b"
        "text_affinity (BindParameter (property (body req) ''message'')) = Some m"
      by (simp_all add: property_def)
    from post_messages_cases [OF sent] success p
    obtain i where "messages db1
                      = messages db @ [\<lparr>m_id = i, sender = a, receiver = b, message = m\<rparr>]"
      by (auto simp: internal_server_error_def)
    moreover from run_messages_grow [OF later] obtain ys where "messages db2 = messages db1 @ ys"
      by blast
    ultimately have "\<lparr>m_id = i, sender = a, receiver = b, message = m\<rparr> \<in> set (messages db2)"
      by simp
    then have "JObj [(''id'', JNum i), (''sender'', JStr a), (''receiver'', JStr b),
                     (''message'', JStr m)]
                 \<in> set (map message_json (filter (\<lambda>row. receiver row = b) (messages db2)))"
      by (force simp: message_json_def)
    with listing [OF ok nonempty] show ?thesis by blast
  qed
  from listing round_trip show ?thesis by blast
qed

text \<open>
  On a fresh database: a message from alice to bob is accepted with the id 1; carol
  then writes to alice; bob's listing that follows holds the one row from alice.
\<close>

theorem send_then_list_messages_witness:
  "post_messages \<lparr>fault = None, uuid = ''''\<rparr>
     \<lparr>headers = Map.empty, params = Map.empty,
      body = [''sender'' \<mapsto> String ''alice-id'', ''receiver'' \<mapsto> String ''bob-id'',
              ''message'' \<mapsto> String ''hello'']\<rparr>
     (new_Database False)
   = (\<lparr>res_status = 200,
       res_json = JObj [(''message'', JStr ''Message sent successfully''), (''id'', JNum 1)]\<rparr>,
      \<lparr>users = [],
       messages = [\<lparr>m_id = 1, sender = ''alice-id'', receiver = ''bob-id'', message = ''hello''\<rparr>],
       seq_users = 0, seq_messages = 1, foreign_keys = False\<rparr>)
   \<and> (\<exists>rows i. map_option fst (route_messages_userid \<lparr>fault = None, uuid = ''''\<rparr> ''bob-id''
          \<lparr>headers = Map.empty, params = Map.empty, body = Map.empty\<rparr>
          (snd (run [(POST_messages, \<lparr>fault = None, uuid = ''''\<rparr>,
                      \<lparr>headers = Map.empty, params = Map.empty,
                       body = [''sender'' \<mapsto> String ''carol-id'',
                               ''receiver'' \<mapsto> String ''alice-id'',
                               ''message'' \<mapsto> String ''hi'']\<rparr>)]
                  \<lparr>users = [],
                   messages = [\<lparr>m_id = 1, sender = ''alice-id'', receiver = ''bob-id'',
                                message = ''hello''\<rparr>],
                   seq_users = 0, seq_messages = 1, foreign_keys = False\<rparr>)))
        = Some \<lparr>res_status = 200, res_json = JArr rows\<rparr>
      \<and> JObj [(''id'', JNum i), (''sender'', JStr ''alice-id''), (''receiver'', JStr ''bob-id''),
               (''message'', JStr ''hello'')] \<in> set rows)
   \<and> map_option fst (route_messages_userid \<lparr>fault = None, uuid = ''''\<rparr> ''bob-id''
          \<lparr>headers = Map.empty, params = Map.empty, body = Map.empty\<rparr>
          \<lparr>users = [],
           messages = [\<lparr>m_id = 1, sender = ''alice-id'', receiver = ''bob-id'',
                        message = ''hello''\<rparr>,
                       \<lparr>m_id = 2, sender = ''carol-id'', receiver = ''alice-id'',
                        message = ''hi''\<rparr>],
           seq_users = 0, seq_messages = 2, foreign_keys = False\<rparr>)
     = Some \<lparr>res_status = 200,
             res_json = JArr [JObj [(''id'', JNum 1), (''sender'', JStr ''alice-id''),
                                    (''receiver'', JStr ''bob-id''),
                                    (''message'', JStr ''hello'')]]\<rparr>"
proof -
  let ?e = "\<lparr>fault = None, uuid = ''''\<rparr>"
  let ?req = "\<lparr>headers = Map.empty, params = Map.empty,
              body = [''sender'' \<mapsto> String ''alice-id'', ''receiver'' \<mapsto> String ''bob-id'',
                      ''message'' \<mapsto> String ''hello'']\<rparr>"
  let ?req' = "\<lparr>headers = Map.empty, params = Map.empty, body = Map.empty\<rparr>"
  let ?db1 = "\<lparr>users = [],
       messages = [\<lparr>m_id = 1, sender = ''alice-id'', receiver = ''bob-id'', message = ''hello''\<rparr>],
       seq_users = 0, seq_messages = 1, foreign_keys = False\<rparr>"
  let ?db3 = "\<lparr>users = [],
           messages = [\<lparr>m_id = 1, sender = ''alice-id'', receiver = ''bob-id'',
                        message = ''hello''\<rparr>,
                       \<lparr>m_id = 2, sender = ''carol-id'', receiver = ''alice-id'',
                        message = ''hi''\<rparr>],
           seq_users = 0, seq_messages = 2, foreign_keys = False\<rparr>"
  let ?calls = "[(POST_messages, ?e,
                  \<lparr>headers = Map.empty, params = Map.empty,
                   body = [''sender'' \<mapsto> String ''carol-id'',
                           ''receiver'' \<mapsto> String ''alice-id'',
                           ''message'' \<mapsto> String ''hi'']\<rparr>)]"
  let ?res = "\<lparr>res_status = 200,
               res_json = JObj [(''message'', JStr ''Message sent successfully''), (''id'', JNum 1)]\<rparr>"
  have sent: "post_messages ?e ?req (new_Database False) = (?res, ?db1)"
    by (simp add: service_defs)
  have hyp1: "post_messages ?e ?req (new_Database False) = (?res, ?db1) \<and> res_status ?res = 200
      \<and> body ?req ''sender'' = Some (String ''alice-id'')
      \<and> body ?req ''receiver'' = Some (String ''bob-id'')
      \<and> body ?req ''message'' = Some (String ''hello'') \<and> ''bob-id'' \<noteq> []
      \<and> run ?calls ?db1 = (fst (run ?calls ?db1), snd (run ?calls ?db1))
      \<and> fault ?e = None"
    using sent by simp
  have hyp2: "fault ?e = None \<and> ''bob-id'' \<noteq> []" by simp
  note inst = send_then_list_messages [of ?e ?req "new_Database False" ?res ?db1 "''alice-id''"
        "''bob-id''" "''hello''" ?calls "fst (run ?calls ?db1)" "snd (run ?calls ?db1)" ?e ?req'
        ?e "''bob-id''" ?req' ?db3]
  from inst hyp1
  obtain rows i where "route_messages_userid ?e ''bob-id'' ?req' (snd (run ?calls ?db1))
                      = Some (\<lparr>res_status = 200, res_json = JArr rows\<rparr>, snd (run ?calls ?db1))"
    and "JObj [(''id'', JNum i), (''sender'', JStr ''alice-id''), (''receiver'', JStr ''bob-id''),
               (''message'', JStr ''hello'')] \<in> set rows"
    by blast
  then have a: "\<exists>rows i. map_option fst (route_messages_userid ?e ''bob-id'' ?req'
                                           (snd (run ?calls ?db1)))
        = Some \<lparr>res_status = 200, res_json = JArr rows\<rparr>
      \<and> JObj [(''id'', JNum i), (''sender'', JStr ''alice-id''), (''receiver'', JStr ''bob-id''),
               (''message'', JStr ''hello'')] \<in> set rows"
    by auto
  from inst hyp2
  have "route_messages_userid ?e ''bob-id'' ?req' ?db3
          = Some (\<lparr>res_status = 200,
                   res_json = JArr (map message_json
                      (filter (\<lambda>row. receiver row = ''bob-id'') (messages ?db3)))\<rparr>, ?db3)"
    by blast
  then have b: "map_option fst (route_messages_userid ?e ''bob-id'' ?req' ?db3)
     = Some \<lparr>res_status = 200,
             res_json = JArr [JObj [(''id'', JNum 1), (''sender'', JStr ''alice-id''),
                                    (''receiver'', JStr ''bob-id''),
                                    (''message'', JStr ''hello'')]]\<rparr>"
    by (simp add: message_json_def)
  from sent a b show ?thesis by blast
qed

text \<open>
  C3. Userid uniqueness. From a users table whose userids are pairwise distinct, every
  sequence of requests leads to a users table whose userids are pairwise distinct; the
  userids that the successful creations of the sequence returned are pairwise distinct
  and none of them was in the table before. The userid is the generated one: a
  \<open>userid\<close> property in the request body changes nothing, and a successful creation
  returns and stores the value of \<open>generateRandomUserid\<close>.
\<close>

theorem userid_unique:
  assumes inv: "distinct (map userid (users db))"
    and exec: "run calls db = (ress, db')"
  shows "distinct (map userid (users db'))
         \<and> distinct (created_userids calls ress)
         \<and> set (created_userids calls ress) \<inter> set (map userid (users db)) = {}
         \<and> (\<forall>e req v. post_users e (req\<lparr>body := (body req)(''userid'' \<mapsto> v)\<rparr>) db'
                          = post_users e req db')
         \<and> (\<forall>e req res db''. post_users e req db' = (res, db'') \<longrightarrow> res_status res = 200 \<longrightarrow>
                res_json res = JObj [(''userid'', JStr (generateRandomUserid e))]
                \<and> map userid (users db'') = map userid (users db') @ [generateRandomUserid e])"
proof -
  have d: "distinct (map userid (users db'))"
    using run_distinct [OF exec inv] .
  then have "distinct (map userid (users db) @ created_userids calls ress)"
    using run_created [OF exec] by simp
  then have c: "distinct (created_userids calls ress)"
      "set (created_userids calls ress) \<inter> set (map userid (users db)) = {}"
    by auto
  have b: "\<forall>e req v. post_users e (req\<lparr>body := (body req)(''userid'' \<mapsto> v)\<rparr>) db'
                          = post_users e req db'"
    by (simp add: post_users_def property_def)
  have s: "\<forall>e req res db''. post_users e req db' = (res, db'') \<longrightarrow> res_status res = 200 \<longrightarrow>
                res_json res = JObj [(''userid'', JStr (generateRandomUserid e))]
                \<and> map userid (users db'') = map userid (users db') @ [generateRandomUserid e]"
  proof (intro allI impI)
    fix e req res db''
    assume "post_users e req db' = (res, db'')" "res_status res = 200"
    then show "res_json res = JObj [(''userid'', JStr (generateRandomUserid e))]
                \<and> map userid (users db'') = map userid (users db') @ [generateRandomUserid e]"
      using post_users_cases [of e req db' res db'']
      by (auto simp: internal_server_error_def generateRandomUserid_def)
  qed
  from d c b s show ?thesis by blast
qed

text \<open>
  On a fresh database, three creations, the second of which draws the userid of the
  first: it is refused, and the two userids returned are distinct.
\<close>

theorem userid_unique_witness:
  "distinct (map userid (users (new_Database False)))
   \<and> run [(POST_users, \<lparr>fault = None, uuid = ''id-1''\<rparr>,
           \<lparr>headers = Map.empty, params = Map.empty, body = [''username'' \<mapsto> String ''alice'']\<rparr>),
          (POST_users, \<lparr>fault = None, uuid = ''id-1''\<rparr>,
           \<lparr>headers = Map.empty, params = Map.empty, body = [''username'' \<mapsto> String ''bob'']\<rparr>),
          (POST_users, \<lparr>fault = None, uuid = ''id-2''\<rparr>,
           \<lparr>headers = Map.empty, params = Map.empty, body = [''username'' \<mapsto> String ''alice'']\<rparr>)]
         (new_Database False)
     = ([\<lparr>res_status = 200, res_json = JObj [(''userid'', JStr ''id-1'')]\<rparr>,
         \<lparr>res_status = 500, res_json = JObj [(''error'', JStr ''Internal server error'')]\<rparr>,
         \<lparr>res_status = 200, res_json = JObj [(''userid'', JStr ''id-2'')]\<rparr>],
        \<lparr>users = [\<lparr>u_id = 1, userid = ''id-1'', username = ''alice''\<rparr>,
                  \<lparr>u_id = 2, userid = ''id-2'', username = ''alice''\<rparr>],
         messages = [], seq_users = 2, seq_messages = 0, foreign_keys = False\<rparr>)
   \<and> distinct (created_userids
        [(POST_users, \<lparr>fault = None, uuid = ''id-1''\<rparr>,
           \<lparr>headers = Map.empty, params = Map.empty, body = [''username'' \<mapsto> String ''alice'']\<rparr>),
          (POST_users, \<lparr>fault = None, uuid = ''id-1''\<rparr>,
           \<lparr>headers = Map.empty, params = Map.empty, body = [''username'' \<mapsto> String ''bob'']\<rparr>),
          (POST_users, \<lparr>fault = None, uuid = ''id-2''\<rparr>,
           \<lparr>headers = Map.empty, params = Map.empty, body = [''username'' \<mapsto> String ''alice'']\<rparr>)]
        [\<lparr>res_status = 200, res_json = JObj [(''userid'', JStr ''id-1'')]\<rparr>,
         \<lparr>res_status = 500, res_json = JObj [(''error'', JStr ''Internal server error'')]\<rparr>,
         \<lparr>res_status = 200, res_json = JObj [(''userid'', JStr ''id-2'')]\<rparr>])"
proof -
  let ?calls = "[(POST_users, \<lparr>fault = None, uuid = ''id-1''\<rparr>,
           \<lparr>headers = Map.empty, params = Map.empty, body = [''username'' \<mapsto> String ''alice'']\<rparr>),
          (POST_users, \<lparr>fault = None, uuid = ''id-1''\<rparr>,
           \<lparr>headers = Map.empty, params = Map.empty, body = [''username'' \<mapsto> String ''bob'']\<rparr>),
          (POST_users, \<lparr>fault = None, uuid = ''id-2''\<rparr>,
           \<lparr>headers = Map.empty, params = Map.empty, body = [''username'' \<mapsto> String ''alice'']\<rparr>)]"
  let ?ress = "[\<lparr>res_status = 200, res_json = JObj [(''userid'', JStr ''id-1'')]\<rparr>,
         \<lparr>res_status = 500, res_json = JObj [(''error'', JStr ''Internal server error'')]\<rparr>,
         \<lparr>res_status = 200, res_json = JObj [(''userid'', JStr ''id-2'')]\<rparr>]"
  let ?db' = "\<lparr>users = [\<lparr>u_id = 1, userid = ''id-1'', username = ''alice''\<rparr>,
                  \<lparr>u_id = 2, userid = ''id-2'', username = ''alice''\<rparr>],
         messages = [], seq_users = 2, seq_messages = 0, foreign_keys = False\<rparr>"
  have inv: "distinct (map userid (users (new_Database False)))"
    by (simp add: new_Database_def)
  have exec: "run ?calls (new_Database False) = (?ress, ?db')"
    by (simp add: service_defs)
  from userid_unique [OF inv exec] have "distinct (created_userids ?calls ?ress)"
    by blast
  with inv exec show ?thesis by blast
qed

text \<open>
  C4. Uniform error behaviour. For each of the five handlers: whatever error its
  statement fails with, the handler answers with status 500 and the body
  \<open>{error: "Internal server error"}\<close>, in which the error does not occur, and leaves
  the database as it was; and the status is 500 exactly when the statement failed.
\<close>

theorem uniform_store_error:
  "(\<forall>err. select_users (fault e) db = Inl err \<longrightarrow>
       get_users e req db
         = (\<lparr>res_status = 500, res_json = JObj [(''error'', JStr ''Internal server error'')]\<rparr>, db))
   \<and> (res_status (fst (get_users e req db)) = 500) = isl (select_users (fault e) db)
   \<and> (\<forall>err. insert_users (fault e) (BindParameter (String (generateRandomUserid e)))
               (BindParameter (property (body req) ''username'')) db = Inl err \<longrightarrow>
       post_users e req db
         = (\<lparr>res_status = 500, res_json = JObj [(''error'', JStr ''Internal server error'')]\<rparr>, db))
   \<and> (res_status (fst (post_users e req db)) = 500)
       = isl (insert_users (fault e) (BindParameter (String (generateRandomUserid e)))
                (BindParameter (property (body req) ''username'')) db)
   \<and> (\<forall>err. insert_messages (fault e) (BindParameter (property (body req) ''sender''))
               (BindParameter (property (body req) ''receiver''))
               (BindParameter (property (body req) ''message'')) db = Inl err \<longrightarrow>
       post_messages e req db
         = (\<lparr>res_status = 500, res_json = JObj [(''error'', JStr ''Internal server error'')]\<rparr>, db))
   \<and> (res_status (fst (post_messages e req db)) = 500)
       = isl (insert_messages (fault e) (BindParameter (property (body req) ''sender''))
               (BindParameter (property (body req) ''receiver''))
               (BindParameter (property (body req) ''message'')) db)
   \<and> (\<forall>err. select_messages_receiver (fault e) (BindParameter (property (params req) ''userid'')) db
               = Inl err \<longrightarrow>
       get_messages_userid e req db
         = (\<lparr>res_status = 500, res_json = JObj [(''error'', JStr ''Internal server error'')]\<rparr>, db))
   \<and> (res_status (fst (get_messages_userid e req db)) = 500)
       = isl (select_messages_receiver (fault e) (BindParameter (property (params req) ''userid'')) db)
   \<and> (\<forall>err. select_messages (fault e) db = Inl err \<longrightarrow>
       get_super_messages e req db
         = (\<lparr>res_status = 500, res_json = JObj [(''error'', JStr ''Internal server error'')]\<rparr>, db))
   \<and> (res_status (fst (get_super_messages e req db)) = 500) = isl (select_messages (fault e) db)"
proof -
  have 1: "\<forall>err. select_users (fault e) db = Inl err \<longrightarrow>
       get_users e req db
         = (\<lparr>res_status = 500, res_json = JObj [(''error'', JStr ''Internal server error'')]\<rparr>, db)"
    by (simp add: get_users_def internal_server_error_def)
  have 2: "(res_status (fst (get_users e req db)) = 500) = isl (select_users (fault e) db)"
    by (simp add: get_users_def internal_server_error_def split: sum.splits)
  have 3: "\<forall>err. insert_users (fault e) (BindParameter (String (generateRandomUserid e)))
               (BindParameter (property (body req) ''username'')) db = Inl err \<longrightarrow>
       post_users e req db
         = (\<lparr>res_status = 500, res_json = JObj [(''error'', JStr ''Internal server error'')]\<rparr>, db)"
    by (simp add: post_users_def internal_server_error_def Let_def)
  have 4: "(res_status (fst (post_users e req db)) = 500)
       = isl (insert_users (fault e) (BindParameter (String (generateRandomUserid e)))
                (BindParameter (property (body req) ''username'')) db)"
    by (simp add: post_users_def internal_server_error_def Let_def split: sum.splits prod.splits)
  have 5: "\<forall>err. insert_messages (fault e) (BindParameter (property (body req) ''sender''))
               (BindParameter (property (body req) ''receiver''))
               (BindParameter (property (body req) ''message'')) db = Inl err \<longrightarrow>
       post_messages e req db
         = (\<lparr>res_status = 500, res_json = JObj [(''error'', JStr ''Internal server error'')]\<rparr>, db)"
    by (simp add: post_messages_def internal_server_error_def Let_def)
  have 6: "(res_status (fst (post_messages e req db)) = 500)
       = isl (insert_messages (fault e) (BindParameter (property (body req) ''sender''))
               (BindParameter (property (body req) ''receiver''))
               (BindParameter (property (body req) ''message'')) db)"
    by (simp add: post_messages_def internal_server_error_def Let_def split: sum.splits prod.splits)
  have 7: "\<forall>err. select_messages_receiver (fault e) (BindParameter (property (params req) ''userid'')) db
               = Inl err \<longrightarrow>
       get_messages_userid e req db
         = (\<lparr>res_status = 500, res_json = JObj [(''error'', JStr ''Internal server error'')]\<rparr>, db)"
    by (simp add: get_messages_userid_def internal_server_error_def Let_def)
  have 8: "(res_status (fst (get_messages_userid e req db)) = 500)
       = isl (select_messages_receiver (fault e) (BindParameter (property (params req) ''userid'')) db)"
    by (simp add: get_messages_userid_def internal_server_error_def Let_def split: sum.splits)
  have 9: "\<forall>err. select_messages (fault e) db = Inl err \<longrightarrow>
       get_super_messages e req db
         = (\<lparr>res_status = 500, res_json = JObj [(''error'', JStr ''Internal server error'')]\<rparr>, db)"
    by (simp add: get_super_messages_def internal_server_error_def)
  have 10: "(res_status (fst (get_super_messages e req db)) = 500) = isl (select_messages (fault e) db)"
    by (simp add: get_super_messages_def internal_server_error_def split: sum.splits)
  from 1 2 3 4 5 6 7 8 9 10 show ?thesis by blast
qed

text \<open>
  With the database locked, a well-formed request to each of the five routes is
  answered with the same status and body, and the database stays fresh.
\<close>

theorem uniform_store_error_witness:
  "get_users \<lparr>fault = Some ''SQLITE_BUSY: database is locked'', uuid = ''id-1''\<rparr>
     \<lparr>headers = Map.empty, params = [''userid'' \<mapsto> String ''id-2''],
      body = [''username'' \<mapsto> String ''alice'', ''sender'' \<mapsto> String ''id-1'',
              ''receiver'' \<mapsto> String ''id-2'', ''message'' \<mapsto> String ''hello'']\<rparr>
     (new_Database False)
   = (\<lparr>res_status = 500, res_json = JObj [(''error'', JStr ''Internal server error'')]\<rparr>,
      new_Database False)
   \<and> post_users \<lparr>fault = Some ''SQLITE_BUSY: database is locked'', uuid = ''id-1''\<rparr>
     \<lparr>headers = Map.empty, params = [''userid'' \<mapsto> String ''id-2''],
      body = [''username'' \<mapsto> String ''alice'', ''sender'' \<mapsto> String ''id-1'',
              ''receiver'' \<mapsto> String ''id-2'', ''message'' \<mapsto> String ''hello'']\<rparr>
     (new_Database False)
   = (\<lparr>res_status = 500, res_json = JObj [(''error'', JStr ''Internal server error'')]\<rparr>,
      new_Database False)
   \<and> post_messages \<lparr>fault = Some ''SQLITE_BUSY: database is locked'', uuid = ''id-1''\<rparr>
     \<lparr>headers = Map.empty, params = [''userid'' \<mapsto> String ''id-2''],
      body = [''username'' \<mapsto> String ''alice'', ''sender'' \<mapsto> String ''id-1'',
              ''receiver'' \<mapsto> String ''id-2'', ''message'' \<mapsto> String ''hello'']\<rparr>
     (new_Database False)
   = (\<lparr>res_status = 500, res_json = JObj [(''error'', JStr ''Internal server error'')]\<rparr>,
      new_Database False)
   \<and> get_messages_userid \<lparr>fault = Some ''SQLITE_BUSY: database is locked'', uuid = ''id-1''\<rparr>
     \<lparr>headers = Map.empty, params = [''userid'' \<mapsto> String ''id-2''],
      body = [''username'' \<mapsto> String ''alice'', ''sender'' \<mapsto> String ''id-1'',
              ''receiver'' \<mapsto> String ''id-2'', ''message'' \<mapsto> String ''hello'']\<rparr>
     (new_Database False)
   = (\<lparr>res_status = 500, res_json = JObj [(''error'', JStr ''Internal server error'')]\<rparr>,
      new_Database False)
   \<and> get_super_messages \<lparr>fault = Some ''SQLITE_BUSY: database is locked'', uuid = ''id-1''\<rparr>
     \<lparr>headers = Map.empty, params = [''userid'' \<mapsto> String ''id-2''],
      body = [''username'' \<mapsto> String ''alice'', ''sender'' \<mapsto> String ''id-1'',
              ''receiver'' \<mapsto> String ''id-2'', ''message'' \<mapsto> String ''hello'']\<rparr>
     (new_Database False)
   = (\<lparr>res_status = 500, res_json = JObj [(''error'', JStr ''Internal server error'')]\<rparr>,
      new_Database False)"
proof -
  let ?e = "\<lparr>fault = Some ''SQLITE_BUSY: database is locked'', uuid = ''id-1''\<rparr>"
  let ?req = "\<lparr>headers = Map.empty, params = [''userid'' \<mapsto> String ''id-2''],
         body = [''username'' \<mapsto> String ''alice'', ''sender'' \<mapsto> String ''id-1'',
                 ''receiver'' \<mapsto> String ''id-2'', ''message'' \<mapsto> String ''hello'']\<rparr>"
  have "select_users (fault ?e) (new_Database False)
          = Inl (SQLITE_ERROR ''SQLITE_BUSY: database is locked'')"
    and "insert_users (fault ?e) (BindParameter (String (generateRandomUserid ?e)))
           (BindParameter (property (body ?req) ''username'')) (new_Database False)
          = Inl (SQLITE_ERROR ''SQLITE_BUSY: database is locked'')"
    and "insert_messages (fault ?e) (BindParameter (property (body ?req) ''sender''))
           (BindParameter (property (body ?req) ''receiver''))
           (BindParameter (property (body ?req) ''message'')) (new_Database False)
          = Inl (SQLITE_ERROR ''SQLITE_BUSY: database is locked'')"
    and "select_messages_receiver (fault ?e) (BindParameter (property (params ?req) ''userid''))
           (new_Database False)
          = Inl (SQLITE_ERROR ''SQLITE_BUSY: database is locked'')"
    and "select_messages (fault ?e) (new_Database False)
          = Inl (SQLITE_ERROR ''SQLITE_BUSY: database is locked'')"
    by (simp_all add: select_users_def insert_users_def insert_messages_def
          select_messages_receiver_def select_messages_def)
  with uniform_store_error [of ?e "new_Database False" ?req] show ?thesis
    by blast
qed

text \<open>
  C5. No existence validation on message send. With three strings in the body, the
  send succeeds exactly when the store's insert does: the handler checks nothing of
  its own. On a connection that does not enforce foreign keys, as the program leaves
  it, and with no error of the store, the send answers 200 and appends the row,
  whether or not sender and receiver are userids of the users table. On a connection
  that enforces them, it succeeds exactly when both are.
\<close>

theorem send_without_existence_check:
  assumes fields: "body req ''sender'' = Some (String s)" "body req ''receiver'' = Some (String r)"
                  "body req ''message'' = Some (String m)"
  shows "(res_status (fst (post_messages e req db)) = 200)
            = (\<not> isl (insert_messages (fault e) (SText s) (SText r) (SText m) db))
         \<and> (fault e = None \<and> \<not> foreign_keys db \<longrightarrow>
              (\<exists>i. post_messages e req db
                 = (\<lparr>res_status = 200,
                     res_json = JObj [(''message'', JStr ''Message sent successfully''),
                                      (''id'', JNum i)]\<rparr>,
                    db\<lparr>messages := messages db
                          @ [\<lparr>m_id = i, sender = s, receiver = r, message = m\<rparr>],
                       seq_messages := i\<rparr>)))
         \<and> (fault e = None \<and> foreign_keys db \<longrightarrow>
              (res_status (fst (post_messages e req db)) = 200)
                = (s \<in> set (map userid (users db)) \<and> r \<in> set (map userid (users db))))"
proof -
  from fields have p: "property (body req) ''sender'' = String s"
      "property (body req) ''receiver'' = String r" "property (body req) ''message'' = String m"
    by (simp_all add: property_def)
  have 1: "(res_status (fst (post_messages e req db)) = 200)
            = (\<not> isl (insert_messages (fault e) (SText s) (SText r) (SText m) db))"
    using p by (simp add: post_messages_def internal_server_error_def split: sum.splits prod.splits)
  have 2: "fault e = None \<and> \<not> foreign_keys db \<longrightarrow>
              (\<exists>i. post_messages e req db
                 = (\<lparr>res_status = 200,
                     res_json = JObj [(''message'', JStr ''Message sent successfully''),
                                      (''id'', JNum i)]\<rparr>,
                    db\<lparr>messages := messages db
                          @ [\<lparr>m_id = i, sender = s, receiver = r, message = m\<rparr>],
                       seq_messages := i\<rparr>))"
    using p by (simp add: post_messages_def insert_messages_def Let_def)
  have 3: "fault e = None \<and> foreign_keys db \<longrightarrow>
              (res_status (fst (post_messages e req db)) = 200)
                = (s \<in> set (map userid (users db)) \<and> r \<in> set (map userid (users db)))"
    using p by (auto simp: post_messages_def insert_messages_def Let_def internal_server_error_def)
  from 1 2 3 show ?thesis by blast
qed

text \<open>
  A send between two userids that no user has, on a fresh database: accepted without
  foreign-key enforcement, refused with it.
\<close>

theorem send_without_existence_check_witness:
  "post_messages \<lparr>fault = None, uuid = ''''\<rparr>
     \<lparr>headers = Map.empty, params = Map.empty,
      body = [''sender'' \<mapsto> String ''nobody'', ''receiver'' \<mapsto> String ''no-one'',
              ''message'' \<mapsto> String ''hi'']\<rparr>
     (new_Database False)
   = (\<lparr>res_status = 200,
       res_json = JObj [(''message'', JStr ''Message sent successfully''), (''id'', JNum 1)]\<rparr>,
      \<lparr>users = [],
       messages = [\<lparr>m_id = 1, sender = ''nobody'', receiver = ''no-one'', message = ''hi''\<rparr>],
       seq_users = 0, seq_messages = 1, foreign_keys = False\<rparr>)
   \<and> res_status (fst (post_messages \<lparr>fault = None, uuid = ''''\<rparr>
        \<lparr>headers = Map.empty, params = Map.empty,
         body = [''sender'' \<mapsto> String ''nobody'', ''receiver'' \<mapsto> String ''no-one'',
                 ''message'' \<mapsto> String ''hi'']\<rparr>
        (new_Database True))) \<noteq> 200"
proof -
  let ?e = "\<lparr>fault = None, uuid = ''''\<rparr>"
  let ?req = "\<lparr>headers = Map.empty, params = Map.empty,
      body = [''sender'' \<mapsto> String ''nobody'', ''receiver'' \<mapsto> String ''no-one'',
              ''message'' \<mapsto> String ''hi'']\<rparr>"
  have f1: "body ?req ''sender'' = Some (String ''nobody'')" by simp
  have f2: "body ?req ''receiver'' = Some (String ''no-one'')" by simp
  have f3: "body ?req ''message'' = Some (String ''hi'')" by simp
  have off: "fault ?e = None \<and> \<not> foreign_keys (new_Database False)"
    by (simp add: new_Database_def)
  have on: "fault ?e = None \<and> foreign_keys (new_Database True)"
    by (simp add: new_Database_def)
  from send_without_existence_check [OF f1 f2 f3, of ?e "new_Database False"] off
  obtain i where "post_messages ?e ?req (new_Database False)
                 = (\<lparr>res_status = 200,
                     res_json = JObj [(''message'', JStr ''Message sent successfully''),
                                      (''id'', JNum i)]\<rparr>,
                    (new_Database False)\<lparr>messages := messages (new_Database False)
                          @ [\<lparr>m_id = i, sender = ''nobody'', receiver = ''no-one'', message = ''hi''\<rparr>],
                       seq_messages := i\<rparr>)"
    by blast
  then have a: "post_messages ?e ?req (new_Database False)
   = (\<lparr>res_status = 200,
       res_json = JObj [(''message'', JStr ''Message sent successfully''), (''id'', JNum 1)]\<rparr>,
      \<lparr>users = [],
       messages = [\<lparr>m_id = 1, sender = ''nobody'', receiver = ''no-one'', message = ''hi''\<rparr>],
       seq_users = 0, seq_messages = 1, foreign_keys = False\<rparr>)"
    by (simp add: service_defs)
  from send_without_existence_check [OF f1 f2 f3, of ?e "new_Database True"] on
  have "(res_status (fst (post_messages ?e ?req (new_Database True))) = 200)
          = (''nobody'' \<in> set (map userid (users (new_Database True)))
             \<and> ''no-one'' \<in> set (map userid (users (new_Database True))))"
    by blast
  then have b: "res_status (fst (post_messages ?e ?req (new_Database True))) \<noteq> 200"
    by (simp add: new_Database_def)
  from a b show ?thesis by blast
qed

text \<open>
  C6. The administrative listing is complete and unfiltered. After any sequence of
  requests, a \<open>GET /super/messages\<close> that the store serves without error answers 200
  with every row of the messages table: the rows the table had before the sequence,
  followed by the row of every successful send of the sequence, whatever its receiver.
  The answer is the same for every request, whatever its headers: nothing of the
  request is read, so nothing is authorised.
\<close>

theorem super_messages_complete:
  assumes exec: "run calls db = (ress, db')"
    and ok: "fault e = None"
  shows "get_super_messages e req db'
           = (\<lparr>res_status = 200,
               res_json = JArr (map message_json (messages db @ sent_messages calls ress))\<rparr>, db')"
  using run_sent [OF exec] ok by (simp add: get_super_messages_def select_messages_def)

text \<open>
  On a fresh database: a send to bob, a send that lacks its message, a send to alice.
  The listing holds the first and the third, with the ids 1 and 2.
\<close>

theorem super_messages_complete_witness:
  "get_super_messages \<lparr>fault = None, uuid = ''''\<rparr>
     \<lparr>headers = Map.empty, params = Map.empty, body = Map.empty\<rparr>
     \<lparr>users = [],
      messages = [\<lparr>m_id = 1, sender = ''alice-id'', receiver = ''bob-id'', message = ''hello''\<rparr>,
                  \<lparr>m_id = 2, sender = ''bob-id'', receiver = ''alice-id'', message = ''hi''\<rparr>],
      seq_users = 0, seq_messages = 2, foreign_keys = False\<rparr>
   = (\<lparr>res_status = 200,
       res_json = JArr [JObj [(''id'', JNum 1), (''sender'', JStr ''alice-id''),
                              (''receiver'', JStr ''bob-id''), (''message'', JStr ''hello'')],
                        JObj [(''id'', JNum 2), (''sender'', JStr ''bob-id''),
                              (''receiver'', JStr ''alice-id''), (''message'', JStr ''hi'')]]\<rparr>,
      \<lparr>users = [],
       messages = [\<lparr>m_id = 1, sender = ''alice-id'', receiver = ''bob-id'', message = ''hello''\<rparr>,
                   \<lparr>m_id = 2, sender = ''bob-id'', receiver = ''alice-id'', message = ''hi''\<rparr>],
       seq_users = 0, seq_messages = 2, foreign_keys = False\<rparr>)"
proof -
  let ?e = "\<lparr>fault = None, uuid = ''''\<rparr>"
  let ?calls = "[(POST_messages, ?e,
                  \<lparr>headers = Map.empty, params = Map.empty,
                   body = [''sender'' \<mapsto> String ''alice-id'', ''receiver'' \<mapsto> String ''bob-id'',
                           ''message'' \<mapsto> String ''hello'']\<rparr>),
                 (POST_messages, ?e,
                  \<lparr>headers = Map.empty, params = Map.empty,
                   body = [''sender'' \<mapsto> String ''alice-id'', ''receiver'' \<mapsto> String ''bob-id'']\<rparr>),
                 (POST_messages, ?e,
                  \<lparr>headers = Map.empty, params = Map.empty,
                   body = [''sender'' \<mapsto> String ''bob-id'', ''receiver'' \<mapsto> String ''alice-id'',
                           ''message'' \<mapsto> String ''hi'']\<rparr>)]"
  let ?ress = "[\<lparr>res_status = 200,
                 res_json = JObj [(''message'', JStr ''Message sent successfully''), (''id'', JNum 1)]\<rparr>,
                \<lparr>res_status = 500, res_json = JObj [(''error'', JStr ''Internal server error'')]\<rparr>,
                \<lparr>res_status = 200,
                 res_json = JObj [(''message'', JStr ''Message sent successfully''), (''id'', JNum 2)]\<rparr>]"
  let ?db' = "\<lparr>users = [],
      messages = [\<lparr>m_id = 1, sender = ''alice-id'', receiver = ''bob-id'', message = ''hello''\<rparr>,
                  \<lparr>m_id = 2, sender = ''bob-id'', receiver = ''alice-id'', message = ''hi''\<rparr>],
      seq_users = 0, seq_messages = 2, foreign_keys = False\<rparr>"
  have exec: "run ?calls (new_Database False) = (?ress, ?db')"
    by (simp add: service_defs)
  have ok: "fault ?e = None" by simp
  from super_messages_complete [OF exec ok] show ?thesis
    by (simp add: property_def message_json_def new_Database_def)
qed



text \<open>
  C8. The response of a successful send. When \<open>POST /messages\<close> answers 200, exactly one
  row was appended to the messages table, and the response is
  \<open>{message: "Message sent successfully", id}\<close> with the rowid of that row, which is the
  one AUTOINCREMENT chose: larger than the rowid of every row the table had.
\<close>

theorem send_response_shape:
  assumes sent: "post_messages e req db = (res, db')"
    and success: "res_status res = 200"
  shows "\<exists>row. messages db' = messages db @ [row]
           \<and> res = \<lparr>res_status = 200,
                     res_json = JObj [(''message'', JStr ''Message sent successfully''),
                                      (''id'', JNum (m_id row))]\<rparr>
           \<and> m_id row = autoincrement (map m_id (messages db)) (seq_messages db)
           \<and> (\<forall>old \<in> set (messages db). m_id old < m_id row)"
  using post_messages_cases [OF sent] success
    autoincrement_fresh [of "map m_id (messages db)" "seq_messages db"]
  by (auto simp: internal_server_error_def)

text \<open>With one message stored, the next send is answered with the id 2.\<close>

theorem send_response_shape_witness:
  "\<exists>row. messages (snd (post_messages \<lparr>fault = None, uuid = ''''\<rparr>
             \<lparr>headers = Map.empty, params = Map.empty,
              body = [''sender'' \<mapsto> String ''bob-id'', ''receiver'' \<mapsto> String ''alice-id'',
                      ''message'' \<mapsto> String ''hi'']\<rparr>
             \<lparr>users = [],
              messages = [\<lparr>m_id = 1, sender = ''alice-id'', receiver = ''bob-id'',
                           message = ''hello''\<rparr>],
              seq_users = 0, seq_messages = 1, foreign_keys = False\<rparr>))
         = [\<lparr>m_id = 1, sender = ''alice-id'', receiver = ''bob-id'', message = ''hello''\<rparr>] @ [row]
       \<and> fst (post_messages \<lparr>fault = None, uuid = ''''\<rparr>
             \<lparr>headers = Map.empty, params = Map.empty,
              body = [''sender'' \<mapsto> String ''bob-id'', ''receiver'' \<mapsto> String ''alice-id'',
                      ''message'' \<mapsto> String ''hi'']\<rparr>
             \<lparr>users = [],
              messages = [\<lparr>m_id = 1, sender = ''alice-id'', receiver = ''bob-id'',
                           message = ''hello''\<rparr>],
              seq_users = 0, seq_messages = 1, foreign_keys = False\<rparr>)
         = \<lparr>res_status = 200,
            res_json = JObj [(''message'', JStr ''Message sent successfully''),
                             (''id'', JNum (m_id row))]\<rparr>
       \<and> m_id row = 2"
proof -
  let ?e = "\<lparr>fault = None, uuid = ''''\<rparr>"
  let ?req = "\<lparr>headers = Map.empty, params = Map.empty,
              body = [''sender'' \<mapsto> String ''bob-id'', ''receiver'' \<mapsto> String ''alice-id'',
                      ''message'' \<mapsto> String ''hi'']\<rparr>"
  let ?db = "\<lparr>users = [],
              messages = [\<lparr>m_id = 1, sender = ''alice-id'', receiver = ''bob-id'',
                           message = ''hello''\<rparr>],
              seq_users = 0, seq_messages = 1, foreign_keys = False\<rparr>"
  have sent: "post_messages ?e ?req ?db
                = (fst (post_messages ?e ?req ?db), snd (post_messages ?e ?req ?db))"
    by simp
  have success: "res_status (fst (post_messages ?e ?req ?db)) = 200"
    by (simp add: service_defs)
  from send_response_shape [OF sent success]
  obtain row where "messages (snd (post_messages ?e ?req ?db)) = messages ?db @ [row]"
    and "fst (post_messages ?e ?req ?db)
           = \<lparr>res_status = 200,
              res_json = JObj [(''message'', JStr ''Message sent successfully''),
                               (''id'', JNum (m_id row))]\<rparr>"
    and "m_id row = autoincrement (map m_id (messages ?db)) (seq_messages ?db)"
    by blast
  then show ?thesis
    by (intro exI [of _ row]) (simp add: autoincrement_def)
qed

text \<open>
  C9. Frame property, as the claim states it: every \<open>POST /messages\<close> appends exactly one
  row to the messages table. A send whose body lacks the message is refused by the
  store and appends none.
\<close>

theorem frame_counterexample:
  "length (messages (snd (post_messages \<lparr>fault = None, uuid = ''''\<rparr>
                            \<lparr>headers = Map.empty, params = Map.empty,
                             body = [''sender'' \<mapsto> String ''alice-id'',
                                     ''receiver'' \<mapsto> String ''bob-id'']\<rparr>
                            (new_Database False))))
     \<noteq> length (messages (new_Database False)) + 1"
  by (simp add: post_messages_def insert_messages_def property_def new_Database_def)

text \<open>
  C9, amended. A \<open>POST /messages\<close> that answers 200 appends exactly one row to the
  messages table and leaves the users table unchanged; a \<open>POST /users\<close> that answers 200
  appends exactly one row to the users table and leaves the messages table unchanged; a
  POST that answers otherwise leaves the database as it was; and the three GET
  handlers leave the database as it was.
\<close>

theorem frame_property:
  "(\<forall>res db'. post_messages e req db = (res, db') \<longrightarrow>
       users db' = users db
       \<and> (if res_status res = 200 then \<exists>row. messages db' = messages db @ [row] else db' = db))
   \<and> (\<forall>res db'. post_users e req db = (res, db') \<longrightarrow>
       messages db' = messages db
       \<and> (if res_status res = 200 then \<exists>row. users db' = users db @ [row] else db' = db))
   \<and> snd (get_users e req db) = db
   \<and> snd (get_messages_userid e req db) = db
   \<and> snd (get_super_messages e req db) = db"
proof -
  have 1: "\<forall>res db'. post_messages e req db = (res, db') \<longrightarrow>
       users db' = users db
       \<and> (if res_status res = 200 then \<exists>row. messages db' = messages db @ [row] else db' = db)"
  proof (intro allI impI)
    fix res db'
    assume "post_messages e req db = (res, db')"
    from post_messages_cases [OF this]
    show "users db' = users db
       \<and> (if res_status res = 200 then \<exists>row. messages db' = messages db @ [row] else db' = db)"
      by (auto simp: internal_server_error_def)
  qed
  have 2: "\<forall>res db'. post_users e req db = (res, db') \<longrightarrow>
       messages db' = messages db
       \<and> (if res_status res = 200 then \<exists>row. users db' = users db @ [row] else db' = db)"
  proof (intro allI impI)
    fix res db'
    assume "post_users e req db = (res, db')"
    from post_users_cases [OF this]
    show "messages db' = messages db
       \<and> (if res_status res = 200 then \<exists>row. users db' = users db @ [row] else db' = db)"
      by (auto simp: internal_server_error_def)
  qed
  have 3: "snd (get_users e req db) = db"
    by (simp add: get_users_def split: sum.splits)
  have 4: "snd (get_messages_userid e req db) = db"
    by (simp add: get_messages_userid_def Let_def split: sum.splits)
  have 5: "snd (get_super_messages e req db) = db"
    by (simp add: get_super_messages_def split: sum.splits)
  from 1 2 3 4 5 show ?thesis by blast
qed

text \<open>
  A request that carries a username and the three fields of a message, on a fresh
  database: as a send it appends one message and no user, as a creation one user and no
  message.
\<close>

theorem frame_property_witness:
  "users (snd (post_messages \<lparr>fault = None, uuid = ''id-1''\<rparr>
        \<lparr>headers = Map.empty, params = Map.empty,
         body = [''username'' \<mapsto> String ''alice'', ''sender'' \<mapsto> String ''alice-id'',
                 ''receiver'' \<mapsto> String ''bob-id'', ''message'' \<mapsto> String ''hello'']\<rparr>
        (new_Database False))) = []
   \<and> (\<exists>row. messages (snd (post_messages \<lparr>fault = None, uuid = ''id-1''\<rparr>
        \<lparr>headers = Map.empty, params = Map.empty,
         body = [''username'' \<mapsto> String ''alice'', ''sender'' \<mapsto> String ''alice-id'',
                 ''receiver'' \<mapsto> String ''bob-id'', ''message'' \<mapsto> String ''hello'']\<rparr>
        (new_Database False))) = [row])
   \<and> messages (snd (post_users \<lparr>fault = None, uuid = ''id-1''\<rparr>
        \<lparr>headers = Map.empty, params = Map.empty,
         body = [''username'' \<mapsto> String ''alice'', ''sender'' \<mapsto> String ''alice-id'',
                 ''receiver'' \<mapsto> String ''bob-id'', ''message'' \<mapsto> String ''hello'']\<rparr>
        (new_Database False))) = []
   \<and> (\<exists>row. users (snd (post_users \<lparr>fault = None, uuid = ''id-1''\<rparr>
        \<lparr>headers = Map.empty, params = Map.empty,
         body = [''username'' \<mapsto> String ''alice'', ''sender'' \<mapsto> String ''alice-id'',
                 ''receiver'' \<mapsto> String ''bob-id'', ''message'' \<mapsto> String ''hello'']\<rparr>
        (new_Database False))) = [row])"
proof -
  let ?e = "\<lparr>fault = None, uuid = ''id-1''\<rparr>"
  let ?req = "\<lparr>headers = Map.empty, params = Map.empty,
         body = [''username'' \<mapsto> String ''alice'', ''sender'' \<mapsto> String ''alice-id'',
                 ''receiver'' \<mapsto> String ''bob-id'', ''message'' \<mapsto> String ''hello'']\<rparr>"
  let ?db = "new_Database False"
  have m: "post_messages ?e ?req ?db
             = (fst (post_messages ?e ?req ?db), snd (post_messages ?e ?req ?db))"
    by simp
  have ms: "res_status (fst (post_messages ?e ?req ?db)) = 200"
    by (simp add: service_defs)
  have u: "post_users ?e ?req ?db = (fst (post_users ?e ?req ?db), snd (post_users ?e ?req ?db))"
    by simp
  have us: "res_status (fst (post_users ?e ?req ?db)) = 200"
    by (simp add: service_defs)
  have empty: "users ?db = []" "messages ?db = []"
    by (simp_all add: new_Database_def)
  from frame_property [of ?e ?req ?db] m u
  have "users (snd (post_messages ?e ?req ?db)) = users ?db
       \<and> (if res_status (fst (post_messages ?e ?req ?db)) = 200
          then \<exists>row. messages (snd (post_messages ?e ?req ?db)) = messages ?db @ [row]
          else snd (post_messages ?e ?req ?db) = ?db)"
    and "messages (snd (post_users ?e ?req ?db)) = messages ?db
       \<and> (if res_status (fst (post_users ?e ?req ?db)) = 200
          then \<exists>row. users (snd (post_users ?e ?req ?db)) = users ?db @ [row]
          else snd (post_users ?e ?req ?db) = ?db)"
    by blast+
  with ms us empty show ?thesis by simp
qed

text \<open>
  C10. Atomicity on a missing field. When the body of \<open>POST /users\<close> lacks
  \<open>username\<close>, the value bound is NULL, the insert fails on the NOT NULL constraint of
  the column (when the store raises no error of its own before), the response is 500
  with \<open>{error: "Internal server error"}\<close>, and the database is as it was. The same
  for \<open>POST /messages\<close> when the body lacks any of \<open>sender\<close>, \<open>receiver\<close> and \<open>message\<close>.
\<close>

theorem missing_field_atomic:
  "(body req ''username'' = None \<longrightarrow>
      BindParameter (property (body req) ''username'') = SNull
      \<and> insert_users None (BindParameter (String (generateRandomUserid e)))
            (BindParameter (property (body req) ''username'')) db
          = Inl (SQLITE_CONSTRAINT ''NOT NULL constraint failed: users.username'')
      \<and> post_users e req db
        = (\<lparr>res_status = 500, res_json = JObj [(''error'', JStr ''Internal server error'')]\<rparr>, db))
   \<and> (body req ''sender'' = None \<or> body req ''receiver'' = None \<or> body req ''message'' = None \<longrightarrow>
      (\<exists>c. insert_messages None (BindParameter (property (body req) ''sender''))
               (BindParameter (property (body req) ''receiver''))
               (BindParameter (property (body req) ''message'')) db
             = Inl (SQLITE_CONSTRAINT (''NOT NULL constraint failed: messages.'' @ c)))
      \<and> post_messages e req db
        = (\<lparr>res_status = 500, res_json = JObj [(''error'', JStr ''Internal server error'')]\<rparr>, db))"
proof -
  have 1: "body req ''username'' = None \<longrightarrow>
      BindParameter (property (body req) ''username'') = SNull
      \<and> insert_users None (BindParameter (String (generateRandomUserid e)))
            (BindParameter (property (body req) ''username'')) db
          = Inl (SQLITE_CONSTRAINT ''NOT NULL constraint failed: users.username'')
      \<and> post_users e req db
        = (\<lparr>res_status = 500, res_json = JObj [(''error'', JStr ''Internal server error'')]\<rparr>, db)"
    by (auto simp: post_users_def insert_users_def property_def internal_server_error_def
          Let_def split: option.splits)
  have 2: "body req ''sender'' = None \<or> body req ''receiver'' = None \<or> body req ''message'' = None \<longrightarrow>
      (\<exists>c. insert_messages None (BindParameter (property (body req) ''sender''))
               (BindParameter (property (body req) ''receiver''))
               (BindParameter (property (body req) ''message'')) db
             = Inl (SQLITE_CONSTRAINT (''NOT NULL constraint failed: messages.'' @ c)))
      \<and> post_messages e req db
        = (\<lparr>res_status = 500, res_json = JObj [(''error'', JStr ''Internal server error'')]\<rparr>, db)"
    by (auto simp: post_messages_def insert_messages_def property_def internal_server_error_def
          Let_def split: option.splits sqlval.splits)
  from 1 2 show ?thesis by blast
qed

text \<open>
  With one user stored, a request whose body has only sender and receiver: as a
  creation and as a send it is answered with the error, and the database is as it was.
\<close>

theorem missing_field_atomic_witness:
  "post_users \<lparr>fault = None, uuid = ''id-2''\<rparr>
     \<lparr>headers = Map.empty, params = Map.empty,
      body = [''sender'' \<mapsto> String ''id-1'', ''receiver'' \<mapsto> String ''id-1'']\<rparr>
     \<lparr>users = [\<lparr>u_id = 1, userid = ''id-1'', username = ''alice''\<rparr>], messages = [],
      seq_users = 1, seq_messages = 0, foreign_keys = False\<rparr>
   = (\<lparr>res_status = 500, res_json = JObj [(''error'', JStr ''Internal server error'')]\<rparr>,
      \<lparr>users = [\<lparr>u_id = 1, userid = ''id-1'', username = ''alice''\<rparr>], messages = [],
       seq_users = 1, seq_messages = 0, foreign_keys = False\<rparr>)
   \<and> post_messages \<lparr>fault = None, uuid = ''id-2''\<rparr>
     \<lparr>headers = Map.empty, params = Map.empty,
      body = [''sender'' \<mapsto> String ''id-1'', ''receiver'' \<mapsto> String ''id-1'']\<rparr>
     \<lparr>users = [\<lparr>u_id = 1, userid = ''id-1'', username = ''alice''\<rparr>], messages = [],
      seq_users = 1, seq_messages = 0, foreign_keys = False\<rparr>
   = (\<lparr>res_status = 500, res_json = JObj [(''error'', JStr ''Internal server error'')]\<rparr>,
      \<lparr>users = [\<lparr>u_id = 1, userid = ''id-1'', username = ''alice''\<rparr>], messages = [],
       seq_users = 1, seq_messages = 0, foreign_keys = False\<rparr>)"
proof -
  let ?e = "\<lparr>fault = None, uuid = ''id-2''\<rparr>"
  let ?req = "\<lparr>headers = Map.empty, params = Map.empty,
      body = [''sender'' \<mapsto> String ''id-1'', ''receiver'' \<mapsto> String ''id-1'']\<rparr>"
  let ?db = "\<lparr>users = [\<lparr>u_id = 1, userid = ''id-1'', username = ''alice''\<rparr>], messages = [],
      seq_users = 1, seq_messages = 0, foreign_keys = False\<rparr>"
  have a: "body ?req ''username'' = None" by simp
  have b: "body ?req ''sender'' = None \<or> body ?req ''receiver'' = None
           \<or> body ?req ''message'' = None"
    by simp
  from missing_field_atomic [of ?req ?e ?db] a b show ?thesis by blast
qed

end
